theory Spec2Isabelle
  imports Main "HOL-Library.Word"
begin

section \<open>The JSON API types of \<^verbatim>\<open>pkg/api/api.go\<close>\<close>

text \<open>
  Package \<^verbatim>\<open>api\<close> declares the request and response structs exchanged between the
  browser, the mobile devices and the verification server. Every struct is embedded as a
  record with the Go field names; a Go \<^verbatim>\<open>string\<close> is a \<^typ>\<open>string\<close> and the one
  \<^verbatim>\<open>int64\<close> field is a 64-bit word read as a signed number. Field names that several
  structs share (\<^verbatim>\<open>Error\<close>, \<^verbatim>\<open>TestType\<close>, ...) are told apart by the record name, as in
  \<open>CoverResponse.Error\<close>.
\<close>

subsection \<open>Constants\<close>

definition TestTypeConfirmed :: string where
  "TestTypeConfirmed = ''confirmed''"

definition TestTypeLikely :: string where
  "TestTypeLikely = ''likely''"

definition TestTypeNegative :: string where
  "TestTypeNegative = ''negative''"

subsection \<open>Structs\<close>

record ErrorReturn =
  Error :: string

record CSRFResponse =
  CSRFToken :: string
  Error :: string

record IssueCodeRequest =
  TestType :: string
  SymptomDate :: string
  Phone :: string

record IssueCodeResponse =
  VerificationCode :: string
  ExpiresAt :: string
  ExpiresAtTimestamp :: "64 word"
  Error :: string

record VerifyCodeRequest =
  VerificationCode :: string

record VerifyCodeResponse =
  TestType :: string
  SymptomDate :: string
  VerificationToken :: string
  Error :: string

record VerificationCertificateRequest =
  VerificationToken :: string
  ExposureKeyHMAC :: string

record VerificationCertificateResponse =
  Certificate :: string
  Error :: string

record CoverRequest =
  Data :: string

record CoverResponse =
  Data :: string
  Error :: string

subsection \<open>Struct declarations: field names and struct tags\<close>

text \<open>
  What Go's reflection sees of a struct declaration: for every field its name and its
  struct tag, the raw string literal written behind the field. The lists below are the
  declarations of \<^verbatim>\<open>api.go\<close>, field by field and in declaration order; the tags are
  copied character by character, the tag \<^verbatim>\<open>string:"error"\<close> of \<^verbatim>\<open>CoverResponse.Error\<close>
  included.
\<close>

record StructField =
  Name :: string
  Tag :: string

definition ErrorReturn_fields :: "StructField list" where
  \<open>ErrorReturn_fields =
     [\<lparr>Name = ''Error'', Tag = ''json:"error"''\<rparr>]\<close>

definition CSRFResponse_fields :: "StructField list" where
  \<open>CSRFResponse_fields =
     [\<lparr>Name = ''CSRFToken'', Tag = ''json:"csrftoken"''\<rparr>,
      \<lparr>Name = ''Error'', Tag = ''json:"error"''\<rparr>]\<close>

definition IssueCodeRequest_fields :: "StructField list" where
  \<open>IssueCodeRequest_fields =
     [\<lparr>Name = ''TestType'', Tag = ''json:"testType"''\<rparr>,
      \<lparr>Name = ''SymptomDate'', Tag = ''json:"symptomDate"''\<rparr>,
      \<lparr>Name = ''Phone'', Tag = ''json:"phone"''\<rparr>]\<close>

definition IssueCodeResponse_fields :: "StructField list" where
  \<open>IssueCodeResponse_fields =
     [\<lparr>Name = ''VerificationCode'', Tag = ''json:"code"''\<rparr>,
      \<lparr>Name = ''ExpiresAt'', Tag = ''json:"expiresAt"''\<rparr>,
      \<lparr>Name = ''ExpiresAtTimestamp'', Tag = ''json:"expiresAtTimestamp"''\<rparr>,
      \<lparr>Name = ''Error'', Tag = ''json:"error"''\<rparr>]\<close>

definition VerifyCodeRequest_fields :: "StructField list" where
  \<open>VerifyCodeRequest_fields =
     [\<lparr>Name = ''VerificationCode'', Tag = ''json:"code"''\<rparr>]\<close>

definition VerifyCodeResponse_fields :: "StructField list" where
  \<open>VerifyCodeResponse_fields =
     [\<lparr>Name = ''TestType'', Tag = ''json:"testtype"''\<rparr>,
      \<lparr>Name = ''SymptomDate'', Tag = ''json:"symptomDate"''\<rparr>,
      \<lparr>Name = ''VerificationToken'', Tag = ''json:"token"''\<rparr>,
      \<lparr>Name = ''Error'', Tag = ''json:"error"''\<rparr>]\<close>

definition VerificationCertificateRequest_fields :: "StructField list" where
  \<open>VerificationCertificateRequest_fields =
     [\<lparr>Name = ''VerificationToken'', Tag = ''json:"token"''\<rparr>,
      \<lparr>Name = ''ExposureKeyHMAC'', Tag = ''json:"ekeyhmac"''\<rparr>]\<close>

definition VerificationCertificateResponse_fields :: "StructField list" where
  \<open>VerificationCertificateResponse_fields =
     [\<lparr>Name = ''Certificate'', Tag = ''json:"certificate"''\<rparr>,
      \<lparr>Name = ''Error'', Tag = ''json:"error"''\<rparr>]\<close>

definition CoverRequest_fields :: "StructField list" where
  \<open>CoverRequest_fields =
     [\<lparr>Name = ''Data'', Tag = ''json:"data"''\<rparr>]\<close>

definition CoverResponse_fields :: "StructField list" where
  \<open>CoverResponse_fields =
     [\<lparr>Name = ''Data'', Tag = ''json:"data"''\<rparr>,
      \<lparr>Name = ''Error'', Tag = ''string:"error"''\<rparr>]\<close>

subsection \<open>Reading a struct tag\<close>

text \<open>
  A struct tag is a sequence of \<^verbatim>\<open>key:"value"\<close> pairs separated by spaces.
  \<open>Lookup tag key\<close> follows \<^verbatim>\<open>reflect.StructTag.Lookup\<close>: skip spaces, scan the key up
  to the colon (a space, a colon, a quote or a control character ends it), scan the quoted
  value (a backslash protects the next character), and return the value of the first pair
  whose key is the one asked for. Any syntax error ends the search with nothing found.
  \<open>Unquote\<close> returns the text between the quotes; escape sequences are not interpreted
  (a value with a backslash or a newline gives \<open>None\<close>): no tag of \<^verbatim>\<open>api.go\<close> has one.
\<close>

definition is_key_char :: "char \<Rightarrow> bool" where
  \<open>is_key_char c =
     ((32::nat) < of_char c \<and> c \<noteq> CHR '':'' \<and> c \<noteq> CHR 0x22 \<and> c \<noteq> CHR 0x7F)\<close>

fun scan_quoted :: "string \<Rightarrow> (string \<times> string) option" where
  "scan_quoted [] = None"
| "scan_quoted (c # cs) =
     (if c = CHR 0x22 then Some ([], cs)
      else if c = CHR 0x5C then
        (case cs of
           [] \<Rightarrow> None
         | d # ds \<Rightarrow> map_option (\<lambda>(b, r). (c # d # b, r)) (scan_quoted ds))
      else map_option (\<lambda>(b, r). (c # b, r)) (scan_quoted cs))"

definition Unquote :: "string \<Rightarrow> string option" where
  "Unquote body =
     (if CHR 0x5C \<in> set body \<or> CHR 0x0A \<in> set body then None else Some body)"

lemma scan_quoted_shorter:
  "scan_quoted cs = Some (b, r) \<Longrightarrow> length r < length cs"
proof (induction cs arbitrary: b r rule: scan_quoted.induct)
  case 1
  then show ?case by simp
next
  case (2 c cs)
  then show ?case
    by (fastforce split: if_splits list.splits)
qed

function Lookup :: "string \<Rightarrow> string \<Rightarrow> string option" where
  "Lookup tag key =
     (case dropWhile (\<lambda>c. c = CHR '' '') tag of
        [] \<Rightarrow> None
      | t # ts \<Rightarrow>
         (case dropWhile is_key_char (t # ts) of
            c1 # c2 # after \<Rightarrow>
              if takeWhile is_key_char (t # ts) \<noteq> [] \<and> c1 = CHR '':'' \<and> c2 = CHR 0x22 then
                (case scan_quoted after of
                   None \<Rightarrow> None
                 | Some (body, tag') \<Rightarrow>
                     if key = takeWhile is_key_char (t # ts) then Unquote body
                     else Lookup tag' key)
              else None
          | _ \<Rightarrow> None))"
  by pat_completeness auto
termination
proof (relation "measure (\<lambda>(tag, key). length tag)")
  show "wf (measure (\<lambda>(tag, key). length tag))" by simp
next
  fix tag key :: string and t ts c1 rest c2 after x body tag'
  assume d1: "dropWhile (\<lambda>c. c = CHR '' '') tag = t # ts"
    and d2: "dropWhile is_key_char (t # ts) = c1 # rest"
    and r: "rest = c2 # after"
    and s: "scan_quoted after = Some x" "(body, tag') = x"
  have "length tag' < length after"
    using s scan_quoted_shorter by metis
  also have "\<dots> < length (dropWhile is_key_char (t # ts))"
    using d2 r by simp
  also have "\<dots> \<le> length (t # ts)"
    by (rule length_dropWhile_le)
  also have "\<dots> \<le> length tag"
    using d1 length_dropWhile_le [of "\<lambda>c. c = CHR '' ''" tag] by simp
  finally show "((tag', key), (tag, key)) \<in> measure (\<lambda>(tag, key). length tag)"
    by simp
qed

declare Lookup.simps [simp del]

definition Get :: "string \<Rightarrow> string \<Rightarrow> string" where
  \<comment> \<open>\<^verbatim>\<open>StructTag.Get\<close>: the empty string when the key is absent\<close>
  "Get tag key = (case Lookup tag key of None \<Rightarrow> [] | Some v \<Rightarrow> v)"

subsection \<open>Encoding a struct as a JSON object\<close>

text \<open>
  The part of \<^verbatim>\<open>encoding/json\<close> that decides which keys a struct is written under,
  for a struct without embedded fields whose fields are strings and 64-bit integers (every
  struct of \<^verbatim>\<open>api.go\<close> is one). A JSON object is the list of its members in the order
  they are written.

  For every exported field the encoder reads the \<^verbatim>\<open>json\<close> key of the struct tag: the tag
  \<^verbatim>\<open>-\<close> drops the field; otherwise the text before the first comma is the member's name
  when it is a valid name, and the Go field name is used when it is empty or invalid (in
  particular when the tag has no \<^verbatim>\<open>json\<close> key at all). Of several fields with one name
  the only tagged one survives, or none. The option \<^verbatim>\<open>omitempty\<close> leaves an empty value
  out. Letters and digits are the ASCII ones, and the option \<^verbatim>\<open>string\<close> is not modelled:
  no tag of \<^verbatim>\<open>api.go\<close> carries an option.

  A member's value is given as the Go value it is written from: \<open>JString s\<close> stands for
  the JSON string the encoder writes for the Go string \<open>s\<close>. The encoder's escaping, and
  its replacement of bytes that are not valid UTF-8 by U+FFFD, belong to the text of that
  string and are not modelled; they do not touch the keys.
\<close>

datatype GoValue = GoString string | GoInt64 "64 word"

datatype JSON = JString string | JNumber int

record field =
  name :: string
  tag :: bool
  omitEmpty :: bool

definition IsExported :: "string \<Rightarrow> bool" where
  "IsExported n =
     (case n of [] \<Rightarrow> False | c # _ \<Rightarrow> (65::nat) \<le> of_char c \<and> of_char c \<le> (90::nat))"

definition parseTag :: "string \<Rightarrow> string \<times> string" where
  "parseTag t =
     (takeWhile (\<lambda>c. c \<noteq> CHR '','') t, drop 1 (dropWhile (\<lambda>c. c \<noteq> CHR '','') t))"

fun splitComma :: "string \<Rightarrow> string list" where
  "splitComma [] = [[]]"
| "splitComma (c # cs) =
     (if c = CHR '','' then [] # splitComma cs
      else (case splitComma cs of [] \<Rightarrow> [[c]] | s # ss \<Rightarrow> (c # s) # ss))"

definition Contains :: "string \<Rightarrow> string \<Rightarrow> bool" where
  \<comment> \<open>\<^verbatim>\<open>tagOptions.Contains\<close>: the loop stops at an empty rest, so an empty last option
      is never compared\<close>
  "Contains opts optionName =
     (opts \<noteq> [] \<and>
      optionName \<in> set (if last (splitComma opts) = [] then butlast (splitComma opts)
                          else splitComma opts))"

definition is_letter_or_digit :: "char \<Rightarrow> bool" where
  "is_letter_or_digit c =
     (let n = (of_char c :: nat)
      in (48 \<le> n \<and> n \<le> 57) \<or> (65 \<le> n \<and> n \<le> 90) \<or> (97 \<le> n \<and> n \<le> 122))"

definition isValidTag :: "string \<Rightarrow> bool" where
  \<open>isValidTag s =
     (s \<noteq> [] \<and>
      list_all (\<lambda>c. c \<in> set ''!#$%&()*+-./:;<=>?@[]^_{|}~ '' \<or> is_letter_or_digit c) s)\<close>

definition candidate :: "StructField \<Rightarrow> field option" where
  "candidate sf =
     (if \<not> IsExported (Name sf) then None
      else if Get (Tag sf) ''json'' = ''-'' then None
      else
        (let (n, opts) = parseTag (Get (Tag sf) ''json'');
             n' = (if isValidTag n then n else [])
         in Some \<lparr>name = (if n' = [] then Name sf else n'),
                  tag = (n' \<noteq> []),
                  omitEmpty = Contains opts ''omitempty''\<rparr>))"

definition dominant :: "field \<Rightarrow> field list \<Rightarrow> bool" where
  "dominant f fs =
     (let same = filter (\<lambda>g. name g = name f) fs
      in length same = 1 \<or> (tag f \<and> length (filter tag same) = 1))"

definition typeFields :: "StructField list \<Rightarrow> field option list" where
  \<comment> \<open>one entry per declared field, \<open>None\<close> for a field that is not encoded\<close>
  "typeFields sfs =
     (let cs = map candidate sfs
      in map (\<lambda>c. case c of
                    None \<Rightarrow> None
                  | Some f \<Rightarrow> if dominant f (List.map_filter id cs) then Some f else None) cs)"

definition isEmptyValue :: "GoValue \<Rightarrow> bool" where
  "isEmptyValue v = (case v of GoString s \<Rightarrow> s = [] | GoInt64 w \<Rightarrow> w = 0)"

definition encode :: "GoValue \<Rightarrow> JSON" where
  "encode v = (case v of GoString s \<Rightarrow> JString s | GoInt64 w \<Rightarrow> JNumber (sint w))"

definition Marshal :: "StructField list \<Rightarrow> GoValue list \<Rightarrow> (string \<times> JSON) list" where
  "Marshal sfs vs =
     concat (map (\<lambda>(c, v). case c of
                             None \<Rightarrow> []
                           | Some f \<Rightarrow>
                               if omitEmpty f \<and> isEmptyValue v then []
                               else [(name f, encode v)])
                 (zip (typeFields sfs) vs))"

text \<open>The encoder applied to each struct of the package: its declaration and its field
  values, in declaration order.\<close>

definition Marshal_ErrorReturn :: "ErrorReturn \<Rightarrow> (string \<times> JSON) list" where
  "Marshal_ErrorReturn r = Marshal ErrorReturn_fields [GoString (ErrorReturn.Error r)]"

definition Marshal_CSRFResponse :: "CSRFResponse \<Rightarrow> (string \<times> JSON) list" where
  "Marshal_CSRFResponse r =
     Marshal CSRFResponse_fields [GoString (CSRFToken r), GoString (CSRFResponse.Error r)]"

definition Marshal_IssueCodeRequest :: "IssueCodeRequest \<Rightarrow> (string \<times> JSON) list" where
  "Marshal_IssueCodeRequest r =
     Marshal IssueCodeRequest_fields
       [GoString (IssueCodeRequest.TestType r), GoString (IssueCodeRequest.SymptomDate r),
        GoString (Phone r)]"

definition Marshal_IssueCodeResponse :: "IssueCodeResponse \<Rightarrow> (string \<times> JSON) list" where
  "Marshal_IssueCodeResponse r =
     Marshal IssueCodeResponse_fields
       [GoString (IssueCodeResponse.VerificationCode r), GoString (ExpiresAt r),
        GoInt64 (ExpiresAtTimestamp r), GoString (IssueCodeResponse.Error r)]"

definition Marshal_VerifyCodeRequest :: "VerifyCodeRequest \<Rightarrow> (string \<times> JSON) list" where
  "Marshal_VerifyCodeRequest r =
     Marshal VerifyCodeRequest_fields [GoString (VerifyCodeRequest.VerificationCode r)]"

definition Marshal_VerifyCodeResponse :: "VerifyCodeResponse \<Rightarrow> (string \<times> JSON) list" where
  "Marshal_VerifyCodeResponse r =
     Marshal VerifyCodeResponse_fields
       [GoString (VerifyCodeResponse.TestType r), GoString (VerifyCodeResponse.SymptomDate r),
        GoString (VerifyCodeResponse.VerificationToken r), GoString (VerifyCodeResponse.Error r)]"

definition Marshal_VerificationCertificateRequest ::
  "VerificationCertificateRequest \<Rightarrow> (string \<times> JSON) list" where
  "Marshal_VerificationCertificateRequest r =
     Marshal VerificationCertificateRequest_fields
       [GoString (VerificationCertificateRequest.VerificationToken r),
        GoString (ExposureKeyHMAC r)]"

definition Marshal_VerificationCertificateResponse ::
  "VerificationCertificateResponse \<Rightarrow> (string \<times> JSON) list" where
  "Marshal_VerificationCertificateResponse r =
     Marshal VerificationCertificateResponse_fields
       [GoString (Certificate r), GoString (VerificationCertificateResponse.Error r)]"

definition Marshal_CoverRequest :: "CoverRequest \<Rightarrow> (string \<times> JSON) list" where
  "Marshal_CoverRequest r = Marshal CoverRequest_fields [GoString (CoverRequest.Data r)]"

definition Marshal_CoverResponse :: "CoverResponse \<Rightarrow> (string \<times> JSON) list" where
  "Marshal_CoverResponse r =
     Marshal CoverResponse_fields
       [GoString (CoverResponse.Data r), GoString (CoverResponse.Error r)]"

section \<open>The code lifecycle: Code Store and Code Verifier\<close>

text \<open>
  The repository's files under \<^verbatim>\<open>src/\<close> hold the API types only. The Code Store and the
  Code Verifier, which decide what happens to a verification code, are not among them; they
  are modelled here from sections 3, 4.2 and 7 of the specification. Time is a number of
  seconds (Unix time). Storage and signing are taken to be available, so the \<open>Internal\<close>
  failure never arises in the model.
\<close>

type_synonym Time = int

text \<open>Modelled from the spec: the error kinds of section 7 (the repository's own error
  values are not under \<^verbatim>\<open>src/\<close>).\<close>

datatype ErrorKind =
  InvalidArgument | NotFound | Expired | AlreadyUsed | Malformed | SignatureInvalid | Internal

text \<open>Modelled from the spec: the VerificationToken of section 3 (the token type is not
  under \<^verbatim>\<open>src/\<close>). Its claims are the test type, the optional symptom date, the issuance
  time, the expiry time and a unique token identifier; the token is the claims and a
  signature over them.\<close>

record TokenClaims =
  testType :: string
  symptomDate :: "string option"
  issuedAt :: Time
  expiresAt :: Time
  tokenID :: string

record VerificationToken =
  claims :: TokenClaims
  signature :: string

text \<open>Modelled from the spec: the VerificationCode record of section 3 (the database record
  is not under \<^verbatim>\<open>src/\<close>), and the Code Store of section 2, which keeps the records keyed
  by their code string.\<close>

record VerificationCode =
  code :: string
  testType :: string
  symptomDate :: "string option"
  issuedAt :: Time
  expiresAt :: Time
  consumed :: bool

type_synonym CodeStore = "string \<rightharpoonup> VerificationCode"

text \<open>Modelled from the spec: what section 4.2 calls the configured policy of the
  verifier (the configuration is not under \<^verbatim>\<open>src/\<close>): the lifetime of a token, and
  signing with the service's token-signing key.\<close>

record VerifierConfig =
  tokenLifetime :: int
  sign :: "TokenClaims \<Rightarrow> string"

text \<open>Modelled from the spec: minting in section 4.2 (the function is not under
  \<^verbatim>\<open>src/\<close>). The token carries the code's test type and symptom date, is issued now and
  expires after the configured lifetime; \<open>tid\<close> is its fresh identifier.\<close>

definition mintToken ::
  "VerifierConfig \<Rightarrow> Time \<Rightarrow> string \<Rightarrow> VerificationCode \<Rightarrow> VerificationToken" where
  "mintToken cfg now tid vc =
     (let cl = \<lparr>TokenClaims.testType = VerificationCode.testType vc,
                TokenClaims.symptomDate = VerificationCode.symptomDate vc,
                TokenClaims.issuedAt = now,
                TokenClaims.expiresAt = now + tokenLifetime cfg,
                tokenID = tid\<rparr>
      in \<lparr>claims = cl, signature = sign cfg cl\<rparr>)"

text \<open>Modelled from the spec: \<open>Verify\<close> of section 4.2 (the Code Verifier is not under
  \<^verbatim>\<open>src/\<close>). It looks the code up and fails with \<open>NotFound\<close> if there is no such code,
  with \<open>Expired\<close> if the current time is greater than \<open>expiresAt\<close>, with \<open>AlreadyUsed\<close> if
  \<open>consumed\<close> is true, in the order the section lists the checks; every failure leaves
  the store as it is. Otherwise it sets \<open>consumed\<close> and mints the token. A call is one
  atomic step on the store.\<close>

definition Verify ::
  "VerifierConfig \<Rightarrow> Time \<Rightarrow> string \<Rightarrow> string \<Rightarrow> CodeStore
     \<Rightarrow> (ErrorKind + VerificationToken) \<times> CodeStore" where
  "Verify cfg now tid c store =
     (case store c of
        None \<Rightarrow> (Inl NotFound, store)
      | Some vc \<Rightarrow>
          if VerificationCode.expiresAt vc < now then (Inl Expired, store)
          else if consumed vc then (Inl AlreadyUsed, store)
          else (Inr (mintToken cfg now tid vc), store(c \<mapsto> vc\<lparr>consumed := True\<rparr>)))"

text \<open>Modelled from the spec: a history of \<open>Verify\<close> calls, made one after the other on
  the store; each call is given by its time, the identifier for its token and the code
  submitted. The results are returned in the order of the calls.\<close>

fun VerifyAll ::
  "VerifierConfig \<Rightarrow> (Time \<times> string \<times> string) list \<Rightarrow> CodeStore
     \<Rightarrow> (ErrorKind + VerificationToken) list \<times> CodeStore" where
  "VerifyAll cfg [] store = ([], store)"
| "VerifyAll cfg ((now, tid, c) # calls) store =
     (case Verify cfg now tid c store of
        (r, store') \<Rightarrow>
          (case VerifyAll cfg calls store' of (rs, store'') \<Rightarrow> (r # rs, store'')))"

text \<open>The scenario of section 8 of the specification: a confirmed diagnosis with symptom
  date 2024-01-15, issued at time 0 under the code \<open>scenario_code\<close> and expiring 15 minutes
  later.\<close>

definition scenario_config :: VerifierConfig where
  "scenario_config = \<lparr>tokenLifetime = 86400, sign = (\<lambda>cl. ''signed:'' @ tokenID cl)\<rparr>"

definition scenario_code :: string where
  "scenario_code = ''83145926''"

definition scenario_record :: VerificationCode where
  "scenario_record =
     \<lparr>code = scenario_code, testType = TestTypeConfirmed, symptomDate = Some ''2024-01-15'',
      issuedAt = 0, expiresAt = 900, consumed = False\<rparr>"

definition scenario_store :: CodeStore where
  "scenario_store = [scenario_code \<mapsto> scenario_record]"

section \<open>Properties of the JSON encoding\<close>

subsection \<open>The members each struct is encoded to\<close>

lemma typeFields_ErrorReturn:
  "typeFields ErrorReturn_fields = [Some \<lparr>name = ''error'', tag = True, omitEmpty = False\<rparr>]"
  by code_simp

lemma typeFields_CSRFResponse:
  "typeFields CSRFResponse_fields =
     [Some \<lparr>name = ''csrftoken'', tag = True, omitEmpty = False\<rparr>,
      Some \<lparr>name = ''error'', tag = True, omitEmpty = False\<rparr>]"
  by code_simp

lemma typeFields_IssueCodeRequest:
  "typeFields IssueCodeRequest_fields =
     [Some \<lparr>name = ''testType'', tag = True, omitEmpty = False\<rparr>,
      Some \<lparr>name = ''symptomDate'', tag = True, omitEmpty = False\<rparr>,
      Some \<lparr>name = ''phone'', tag = True, omitEmpty = False\<rparr>]"
  by code_simp

lemma typeFields_IssueCodeResponse:
  "typeFields IssueCodeResponse_fields =
     [Some \<lparr>name = ''code'', tag = True, omitEmpty = False\<rparr>,
      Some \<lparr>name = ''expiresAt'', tag = True, omitEmpty = False\<rparr>,
      Some \<lparr>name = ''expiresAtTimestamp'', tag = True, omitEmpty = False\<rparr>,
      Some \<lparr>name = ''error'', tag = True, omitEmpty = False\<rparr>]"
  by code_simp

lemma typeFields_VerifyCodeRequest:
  "typeFields VerifyCodeRequest_fields =
     [Some \<lparr>name = ''code'', tag = True, omitEmpty = False\<rparr>]"
  by code_simp

lemma typeFields_VerifyCodeResponse:
  "typeFields VerifyCodeResponse_fields =
     [Some \<lparr>name = ''testtype'', tag = True, omitEmpty = False\<rparr>,
      Some \<lparr>name = ''symptomDate'', tag = True, omitEmpty = False\<rparr>,
      Some \<lparr>name = ''token'', tag = True, omitEmpty = False\<rparr>,
      Some \<lparr>name = ''error'', tag = True, omitEmpty = False\<rparr>]"
  by code_simp

lemma typeFields_VerificationCertificateRequest:
  "typeFields VerificationCertificateRequest_fields =
     [Some \<lparr>name = ''token'', tag = True, omitEmpty = False\<rparr>,
      Some \<lparr>name = ''ekeyhmac'', tag = True, omitEmpty = False\<rparr>]"
  by code_simp

lemma typeFields_VerificationCertificateResponse:
  "typeFields VerificationCertificateResponse_fields =
     [Some \<lparr>name = ''certificate'', tag = True, omitEmpty = False\<rparr>,
      Some \<lparr>name = ''error'', tag = True, omitEmpty = False\<rparr>]"
  by code_simp

lemma typeFields_CoverRequest:
  "typeFields CoverRequest_fields = [Some \<lparr>name = ''data'', tag = True, omitEmpty = False\<rparr>]"
  by code_simp

lemma typeFields_CoverResponse:
  "typeFields CoverResponse_fields =
     [Some \<lparr>name = ''data'', tag = True, omitEmpty = False\<rparr>,
      Some \<lparr>name = ''Error'', tag = False, omitEmpty = False\<rparr>]"
  by code_simp

lemmas Marshal_unfold = Marshal_def isEmptyValue_def encode_def

lemma Marshal_ErrorReturn_members:
  "Marshal_ErrorReturn r = [(''error'', JString (ErrorReturn.Error r))]"
  by (simp add: Marshal_ErrorReturn_def Marshal_unfold typeFields_ErrorReturn)

lemma Marshal_CSRFResponse_members:
  "Marshal_CSRFResponse r =
     [(''csrftoken'', JString (CSRFToken r)), (''error'', JString (CSRFResponse.Error r))]"
  by (simp add: Marshal_CSRFResponse_def Marshal_unfold typeFields_CSRFResponse)

lemma Marshal_IssueCodeRequest_members:
  "Marshal_IssueCodeRequest r =
     [(''testType'', JString (IssueCodeRequest.TestType r)),
      (''symptomDate'', JString (IssueCodeRequest.SymptomDate r)),
      (''phone'', JString (Phone r))]"
  by (simp add: Marshal_IssueCodeRequest_def Marshal_unfold typeFields_IssueCodeRequest)

lemma Marshal_IssueCodeResponse_members:
  "Marshal_IssueCodeResponse r =
     [(''code'', JString (IssueCodeResponse.VerificationCode r)),
      (''expiresAt'', JString (ExpiresAt r)),
      (''expiresAtTimestamp'', JNumber (sint (ExpiresAtTimestamp r))),
      (''error'', JString (IssueCodeResponse.Error r))]"
  by (simp add: Marshal_IssueCodeResponse_def Marshal_unfold typeFields_IssueCodeResponse)

lemma Marshal_VerifyCodeRequest_members:
  "Marshal_VerifyCodeRequest r = [(''code'', JString (VerifyCodeRequest.VerificationCode r))]"
  by (simp add: Marshal_VerifyCodeRequest_def Marshal_unfold typeFields_VerifyCodeRequest)

lemma Marshal_VerifyCodeResponse_members:
  "Marshal_VerifyCodeResponse r =
     [(''testtype'', JString (VerifyCodeResponse.TestType r)),
      (''symptomDate'', JString (VerifyCodeResponse.SymptomDate r)),
      (''token'', JString (VerifyCodeResponse.VerificationToken r)),
      (''error'', JString (VerifyCodeResponse.Error r))]"
  by (simp add: Marshal_VerifyCodeResponse_def Marshal_unfold typeFields_VerifyCodeResponse)

lemma Marshal_VerificationCertificateRequest_members:
  "Marshal_VerificationCertificateRequest r =
     [(''token'', JString (VerificationCertificateRequest.VerificationToken r)),
      (''ekeyhmac'', JString (ExposureKeyHMAC r))]"
  by (simp add: Marshal_VerificationCertificateRequest_def Marshal_unfold
      typeFields_VerificationCertificateRequest)

lemma Marshal_VerificationCertificateResponse_members:
  "Marshal_VerificationCertificateResponse r =
     [(''certificate'', JString (Certificate r)),
      (''error'', JString (VerificationCertificateResponse.Error r))]"
  by (simp add: Marshal_VerificationCertificateResponse_def Marshal_unfold
      typeFields_VerificationCertificateResponse)

lemma Marshal_CoverRequest_members:
  "Marshal_CoverRequest r = [(''data'', JString (CoverRequest.Data r))]"
  by (simp add: Marshal_CoverRequest_def Marshal_unfold typeFields_CoverRequest)

lemma Marshal_CoverResponse_members:
  "Marshal_CoverResponse r =
     [(''data'', JString (CoverResponse.Data r)), (''Error'', JString (CoverResponse.Error r))]"
  by (simp add: Marshal_CoverResponse_def Marshal_unfold typeFields_CoverResponse)

subsection \<open>Keys that differ from the rest of the interface\<close>

lemma CoverResponse_json_tags:
  \<open>map (\<lambda>sf. Lookup (Tag sf) ''json'') CoverResponse_fields = [Some ''data'', None]\<close>
  by code_simp

lemma CoverResponse_string_tags:
  \<open>map (\<lambda>sf. Lookup (Tag sf) ''string'') CoverResponse_fields = [None, Some ''error'']\<close>
  by code_simp

text \<open>
  C9. The \<^verbatim>\<open>Error\<close> field of \<^verbatim>\<open>CoverResponse\<close> is tagged \<^verbatim>\<open>string:"error"\<close>: the tag has
  a \<^verbatim>\<open>string\<close> key and no \<^verbatim>\<open>json\<close> key. So every \<^verbatim>\<open>CoverResponse\<close> value is encoded with
  its error under the key \<^verbatim>\<open>Error\<close> (the Go field name) and has no member \<^verbatim>\<open>error\<close>, while
  every other response struct of the package (\<^verbatim>\<open>ErrorReturn\<close>, \<^verbatim>\<open>CSRFResponse\<close>,
  \<^verbatim>\<open>IssueCodeResponse\<close>, \<^verbatim>\<open>VerifyCodeResponse\<close>, \<^verbatim>\<open>VerificationCertificateResponse\<close>) is
  encoded with its error under the lowercase key \<^verbatim>\<open>error\<close>.
\<close>

theorem CoverResponse_error_key:
  \<open>map Tag CoverResponse_fields = [''json:"data"'', ''string:"error"'']
   \<and> map (\<lambda>sf. Lookup (Tag sf) ''json'') CoverResponse_fields = [Some ''data'', None]
   \<and> map (\<lambda>sf. Lookup (Tag sf) ''string'') CoverResponse_fields = [None, Some ''error'']
   \<and> map fst (Marshal_CoverResponse r) = [''data'', ''Error'']
   \<and> map_of (Marshal_CoverResponse r) ''Error'' = Some (JString (CoverResponse.Error r))
   \<and> map_of (Marshal_CoverResponse r) ''error'' = None
   \<and> map_of (Marshal_ErrorReturn e) ''error'' = Some (JString (ErrorReturn.Error e))
   \<and> map_of (Marshal_CSRFResponse c) ''error'' = Some (JString (CSRFResponse.Error c))
   \<and> map_of (Marshal_IssueCodeResponse i) ''error'' = Some (JString (IssueCodeResponse.Error i))
   \<and> map_of (Marshal_VerifyCodeResponse v) ''error'' = Some (JString (VerifyCodeResponse.Error v))
   \<and> map_of (Marshal_VerificationCertificateResponse t) ''error''
       = Some (JString (VerificationCertificateResponse.Error t))\<close>
proof -
  have tags: \<open>map Tag CoverResponse_fields = [''json:"data"'', ''string:"error"'']\<close>
    by (simp add: CoverResponse_fields_def)
  have cover: "map fst (Marshal_CoverResponse r) = [''data'', ''Error'']"
    "map_of (Marshal_CoverResponse r) ''Error'' = Some (JString (CoverResponse.Error r))"
    "map_of (Marshal_CoverResponse r) ''error'' = None"
    by (simp_all add: Marshal_CoverResponse_members)
  have others:
    "map_of (Marshal_ErrorReturn e) ''error'' = Some (JString (ErrorReturn.Error e))"
    "map_of (Marshal_CSRFResponse c) ''error'' = Some (JString (CSRFResponse.Error c))"
    "map_of (Marshal_IssueCodeResponse i) ''error'' = Some (JString (IssueCodeResponse.Error i))"
    "map_of (Marshal_VerifyCodeResponse v) ''error'' = Some (JString (VerifyCodeResponse.Error v))"
    "map_of (Marshal_VerificationCertificateResponse t) ''error''
       = Some (JString (VerificationCertificateResponse.Error t))"
    by (simp_all add: Marshal_ErrorReturn_members Marshal_CSRFResponse_members
        Marshal_IssueCodeResponse_members Marshal_VerifyCodeResponse_members
        Marshal_VerificationCertificateResponse_members)
  from tags CoverResponse_json_tags CoverResponse_string_tags cover others
  show ?thesis by (intro conjI)
qed

text \<open>
  C10. The key of the test type differs in casing across the interface: every
  \<^verbatim>\<open>IssueCodeRequest\<close> is encoded with its test type under \<^verbatim>\<open>testType\<close> (and has no
  member \<^verbatim>\<open>testtype\<close>), every \<^verbatim>\<open>VerifyCodeResponse\<close> with its test type under
  \<^verbatim>\<open>testtype\<close> (and has no member \<^verbatim>\<open>testType\<close>).
\<close>

theorem TestType_key_casing:
  "map_of (Marshal_IssueCodeRequest q) ''testType'' = Some (JString (IssueCodeRequest.TestType q))
   \<and> map_of (Marshal_IssueCodeRequest q) ''testtype'' = None
   \<and> map_of (Marshal_VerifyCodeResponse v) ''testtype''
       = Some (JString (VerifyCodeResponse.TestType v))
   \<and> map_of (Marshal_VerifyCodeResponse v) ''testType'' = None"
proof -
  have req:
    "map_of (Marshal_IssueCodeRequest q) ''testType''
       = Some (JString (IssueCodeRequest.TestType q))"
    "map_of (Marshal_IssueCodeRequest q) ''testtype'' = None"
    by (simp_all add: Marshal_IssueCodeRequest_members)
  have resp:
    "map_of (Marshal_VerifyCodeResponse v) ''testtype''
       = Some (JString (VerifyCodeResponse.TestType v))"
    "map_of (Marshal_VerifyCodeResponse v) ''testType'' = None"
    by (simp_all add: Marshal_VerifyCodeResponse_members)
  from req resp show ?thesis by (intro conjI)
qed

section \<open>Properties of the code lifecycle\<close>

subsection \<open>Histories of calls\<close>

lemma VerifyAll_Cons:
  assumes "VerifyAll cfg ((now, tid, c) # calls) store = (rs, store')"
  obtains r s1 rs1 where "Verify cfg now tid c store = (r, s1)"
    and "VerifyAll cfg calls s1 = (rs1, store')" and "rs = r # rs1"
  using assms by (auto split: prod.splits)

lemma Verify_keeps_expiry:
  assumes "store c = Some vc"
  shows "\<exists>vc'. snd (Verify cfg now tid c' store) c = Some vc' \<and>
           VerificationCode.expiresAt vc' = VerificationCode.expiresAt vc"
  using assms by (auto simp: Verify_def split: option.split)

lemma VerifyAll_keeps_expiry:
  assumes "store c = Some vc" and "VerifyAll cfg calls store = (rs, store')"
  shows "\<exists>vc'. store' c = Some vc' \<and>
           VerificationCode.expiresAt vc' = VerificationCode.expiresAt vc"
  using assms
proof (induction calls arbitrary: store vc rs)
  case Nil
  then show ?case by simp
next
  case (Cons call calls)
  obtain now' tid' c' where call: "call = (now', tid', c')"
    by (cases call) auto
  from Cons.prems(2) obtain r s1 rs1 where step: "Verify cfg now' tid' c' store = (r, s1)"
    and rest: "VerifyAll cfg calls s1 = (rs1, store')" and rs: "rs = r # rs1"
    unfolding call by (rule VerifyAll_Cons)
  obtain vc1 where vc1: "s1 c = Some vc1"
    "VerificationCode.expiresAt vc1 = VerificationCode.expiresAt vc"
    using Verify_keeps_expiry [of store c vc cfg now' tid' c'] Cons.prems(1) step by auto
  from Cons.IH [of s1 vc1 rs1] vc1 rest show ?case
    by simp
qed

subsection \<open>Expiry\<close>

text \<open>
  C3. A \<open>Verify\<close> made at a time strictly after the \<open>expiresAt\<close> of a stored code fails
  with \<open>Expired\<close> and leaves the store, and so the code's record, exactly as it was. This
  holds whatever calls were made before: after none at all (the code was never verified),
  and also after the code was verified successfully.
\<close>

theorem Verify_after_expiry:
  assumes "store c = Some vc"
    and "VerifyAll cfg calls store = (rs, store')"
    and "VerificationCode.expiresAt vc < now"
  shows "Verify cfg now tid c store' = (Inl Expired, store')"
proof -
  from VerifyAll_keeps_expiry [OF assms(1,2)] obtain vc'
    where "store' c = Some vc'"
      and "VerificationCode.expiresAt vc' = VerificationCode.expiresAt vc"
    by blast
  with assms(3) show ?thesis
    by (simp add: Verify_def)
qed


text \<open>The scenario's code, never verified, is submitted 16 minutes after it was issued.\<close>

theorem Verify_after_expiry_witness:
  "scenario_store scenario_code = Some scenario_record
   \<and> VerifyAll scenario_config [] scenario_store = ([], scenario_store)
   \<and> VerificationCode.expiresAt scenario_record < 960
   \<and> Verify scenario_config 960 ''token-1'' scenario_code scenario_store
       = (Inl Expired, scenario_store)"
proof -
  have stored: "scenario_store scenario_code = Some scenario_record"
    by (simp add: scenario_store_def)
  have history: "VerifyAll scenario_config [] scenario_store = ([], scenario_store)"
    by simp
  have late: "VerificationCode.expiresAt scenario_record < 960"
    by (simp add: scenario_record_def)
  from stored history late
    Verify_after_expiry [of scenario_store scenario_code scenario_record scenario_config
      "[]" "[]" scenario_store 960 "''token-1''"]
  show ?thesis by simp
qed

end
